theory Spec2Isabelle
  imports Main "HOL-Library.Sublist"
begin

section \<open>Python string primitives used by the queue manager\<close>

text \<open>
  Text is a \<open>string\<close>: one \<open>char\<close> per code point, for the code points below 256.
  \<open>py_isspace\<close> is \<open>str.isspace\<close> on that range, which is the set of characters
  \<open>str.strip()\<close> removes: U+0009..U+000D, U+001C..U+0020, U+0085 and U+00A0.
\<close>

datatype error = ValueError | TypeError | IndexError | OSError

definition LF :: char where
  "LF = CHR 0x0A"

definition CR :: char where
  "CR = CHR 0x0D"

definition py_isspace :: "char \<Rightarrow> bool" where
  "py_isspace c =
     (let n = (of_char c :: nat)
      in (9 \<le> n \<and> n \<le> 13) \<or> (28 \<le> n \<and> n \<le> 32) \<or> n = 133 \<or> n = 160)"

definition strip :: "string \<Rightarrow> string" where
  "strip s = rev (dropWhile py_isspace (rev (dropWhile py_isspace s)))"

text \<open>
  \<open>str.split(sep)\<close>: the text is scanned from the left, every occurrence of \<open>sep\<close> closes
  the current segment and scanning resumes behind it. An empty separator raises ValueError.
\<close>

function split_from :: "string \<Rightarrow> string \<Rightarrow> string \<Rightarrow> string list" where
  "split_from sep acc [] = [rev acc]"
| "split_from sep acc (c # cs) =
     (if sep \<noteq> [] \<and> prefix sep (c # cs)
      then rev acc # split_from sep [] (drop (length sep) (c # cs))
      else split_from sep (c # acc) cs)"
  by pat_completeness auto
termination
  by (relation "measure (\<lambda>(sep, acc, s). length s)") auto

definition str_split :: "string \<Rightarrow> string \<Rightarrow> error + string list" where
  "str_split s sep = (if sep = [] then Inl ValueError else Inr (split_from sep [] s))"

text \<open>
  \<open>str.replace(old, new)\<close>: left to right, occurrences do not overlap. With an empty
  \<open>old\<close>, Python puts \<open>new\<close> before every character and at the end.
\<close>

function replace_from :: "string \<Rightarrow> string \<Rightarrow> string \<Rightarrow> string" where
  "replace_from old new [] = []"
| "replace_from old new (c # cs) =
     (if old \<noteq> [] \<and> prefix old (c # cs)
      then new @ replace_from old new (drop (length old) (c # cs))
      else c # replace_from old new cs)"
  by pat_completeness auto
termination
  by (relation "measure (\<lambda>(old, new, s). length s)") auto

definition str_replace :: "string \<Rightarrow> string \<Rightarrow> string \<Rightarrow> string" where
  "str_replace s old new =
     (if old = [] then new @ concat (map (\<lambda>c. c # new) s) else replace_from old new s)"

section \<open>QueueManager (queue\_manager.py)\<close>

text \<open>
  The fields of the class. The Qt signals \<open>queue_changed\<close>, \<open>queue_empty\<close> and
  \<open>line_pasted\<close> are not part of the state: their slots (in main.py) only read the
  queue and redraw the indicator and the tray icon.
\<close>

record queue_manager =
  queue :: "string list"
  original_queue :: "string list"
  delimiter :: string
  loop_mode :: bool
  current_index :: int

definition DELIMITER_NEWLINE :: string where
  "DELIMITER_NEWLINE = [LF]"

definition DELIMITER_COMMA :: string where
  "DELIMITER_COMMA = '',''"

definition DELIMITER_TAB :: string where
  "DELIMITER_TAB = [CHR 0x09]"

definition DELIMITER_SEMICOLON :: string where
  "DELIMITER_SEMICOLON = '';''"

definition init :: queue_manager where
  "init = \<lparr>queue = [], original_queue = [], delimiter = DELIMITER_NEWLINE,
           loop_mode = False, current_index = 0\<rparr>"

definition set_delimiter :: "string \<Rightarrow> queue_manager \<Rightarrow> queue_manager" where
  "set_delimiter v qm = qm\<lparr>delimiter := (if v \<noteq> [] then v else DELIMITER_NEWLINE)\<rparr>"

definition set_loop_mode :: "bool \<Rightarrow> queue_manager \<Rightarrow> queue_manager" where
  "set_loop_mode v qm = qm\<lparr>loop_mode := v\<rparr>"

text \<open>
  \<open>load_text\<close> stores an explicit delimiter before it splits, so the assignment survives
  when \<open>split\<close> raises: the result pairs the return value (or the exception) with the
  state the object is left in.
\<close>

definition load_text ::
  "string \<Rightarrow> string option \<Rightarrow> queue_manager \<Rightarrow> (error + int) \<times> queue_manager" where
  "load_text text delim qm =
     (let qm1 = (case delim of None \<Rightarrow> qm | Some d \<Rightarrow> qm\<lparr>delimiter := d\<rparr>);
          lines = (if delimiter qm1 = DELIMITER_NEWLINE
                   then str_split (str_replace text [CR, LF] [LF]) [LF]
                   else str_split text (delimiter qm1))
      in case lines of
           Inl e \<Rightarrow> (Inl e, qm1)
         | Inr ls \<Rightarrow>
             (let q = map strip (filter (\<lambda>line. strip line \<noteq> []) ls)
              in (Inr (int (length q)),
                  qm1\<lparr>queue := q, original_queue := q, current_index := 0\<rparr>)))"

definition peek_next :: "queue_manager \<Rightarrow> string option" where
  "peek_next qm = (case queue qm of [] \<Rightarrow> None | line # rest \<Rightarrow> Some line)"

text \<open>The second half of \<open>pop_next\<close> (\<open>if self._queue: ... return line\<close>, else None).\<close>

definition pop_front :: "queue_manager \<Rightarrow> string option \<times> queue_manager" where
  "pop_front qm =
     (case queue qm of
        [] \<Rightarrow> (None, qm)
      | line # rest \<Rightarrow> (Some line, qm\<lparr>queue := rest\<rparr>))"

definition pop_next :: "queue_manager \<Rightarrow> string option \<times> queue_manager" where
  "pop_next qm =
     (if queue qm = []
      then (if loop_mode qm \<and> original_queue qm \<noteq> []
            then pop_front (qm\<lparr>queue := original_queue qm\<rparr>)
            else (None, qm))
      else pop_front qm)"

definition get_count :: "queue_manager \<Rightarrow> int" where
  "get_count qm = int (length (queue qm))"

definition get_total :: "queue_manager \<Rightarrow> int" where
  "get_total qm = int (length (original_queue qm))"

definition get_current_position :: "queue_manager \<Rightarrow> int" where
  "get_current_position qm =
     (let total = get_total qm; remaining = get_count qm
      in if total > 0 then total - remaining + 1 else 0)"

definition is_empty :: "queue_manager \<Rightarrow> bool" where
  "is_empty qm = (length (queue qm) = 0)"

definition clear :: "queue_manager \<Rightarrow> queue_manager" where
  "clear qm = qm\<lparr>queue := [], original_queue := [], current_index := 0\<rparr>"

definition get_all_lines :: "queue_manager \<Rightarrow> string list" where
  "get_all_lines qm = queue qm"

text \<open>A sequence of calls on one QueueManager object, for the invariant.\<close>

datatype qm_op =
    LoadText string "string option"
  | PeekNext
  | PopNext
  | Clear
  | SetDelimiter string
  | SetLoopMode bool

fun step :: "queue_manager \<Rightarrow> qm_op \<Rightarrow> queue_manager" where
  "step qm (LoadText text delim) = snd (load_text text delim qm)"
| "step qm PeekNext = qm"
| "step qm PopNext = snd (pop_next qm)"
| "step qm Clear = clear qm"
| "step qm (SetDelimiter v) = set_delimiter v qm"
| "step qm (SetLoopMode v) = set_loop_mode v qm"

definition run_ops :: "qm_op list \<Rightarrow> queue_manager" where
  "run_ops ops = foldl step init ops"

definition queue_inv :: "queue_manager \<Rightarrow> bool" where
  "queue_inv qm = (length (queue qm) \<le> length (original_queue qm))"

text \<open>
  The queue the specification describes for \<open>load_text(text, D)\<close>: the text split on
  \<open>D\<close>, every segment stripped, the empty results dropped, order kept.
\<close>

definition spec_segments :: "string \<Rightarrow> string \<Rightarrow> string list" where
  "spec_segments text D = filter (\<lambda>seg. seg \<noteq> []) (map strip (split_from D [] text))"

section \<open>Clipboard access and the restore callback (clipboard\_monitor.py, main.py)\<close>

text \<open>
  The system clipboard as pyperclip reaches it: its text, and whether \<open>pyperclip.paste\<close>
  and \<open>pyperclip.copy\<close> raise at the moment of the call. \<open>get_clipboard\<close> turns a failed
  read into the empty string, \<open>set_clipboard\<close> turns a failed write into False and leaves
  the clipboard alone.
\<close>

record clipboard =
  content :: string
  paste_raises :: bool
  copy_raises :: bool

definition get_clipboard :: "clipboard \<Rightarrow> string" where
  "get_clipboard cb = (if paste_raises cb then [] else content cb)"

definition set_clipboard :: "string \<Rightarrow> clipboard \<Rightarrow> bool \<times> clipboard" where
  "set_clipboard text cb =
     (if copy_raises cb then (False, cb) else (True, cb\<lparr>content := text\<rparr>))"

record clipboard_monitor =
  min_lines :: int
  paused :: bool
  last_content :: string

definition pause :: "clipboard_monitor \<Rightarrow> clipboard_monitor" where
  "pause m = (if \<not> paused m then m\<lparr>paused := True\<rparr> else m)"

definition resume :: "clipboard_monitor \<Rightarrow> clipboard_monitor" where
  "resume m = (if paused m then m\<lparr>paused := False\<rparr> else m)"

definition update_last_content :: "string \<Rightarrow> clipboard_monitor \<Rightarrow> clipboard_monitor" where
  "update_last_content c m = m\<lparr>last_content := c\<rparr>"

text \<open>
  What the delayed callback of \<open>_on_paste_triggered\<close> reads and writes: the clipboard and
  the monitor. \<open>original_clipboard\<close> and \<open>current_line\<close> are the two variables the
  closure captured before the paste.
\<close>

record app_state =
  clip :: clipboard
  monitor :: clipboard_monitor

definition restore_clipboard :: "string \<Rightarrow> string \<Rightarrow> app_state \<Rightarrow> app_state" where
  "restore_clipboard original_clipboard current_line st =
     (let current_clip = get_clipboard (clip st);
          st1 = (if current_clip = current_line
                 then st\<lparr>clip := snd (set_clipboard original_clipboard (clip st)),
                         monitor := update_last_content original_clipboard (monitor st)\<rparr>
                 else st\<lparr>monitor := update_last_content current_clip (monitor st)\<rparr>)
      in st1\<lparr>monitor := resume (monitor st1)\<rparr>)"

section \<open>Settings (settings.py) and their use in main.py\<close>

text \<open>
  A value read from the settings file. A float keeps the decimal it was written with
  (mantissa and power of ten): the code stores and returns such values and never computes
  with them.
\<close>

datatype jval =
    JNull
  | JBool bool
  | JInt int
  | JFloat int int
  | JStr string
  | JArr "jval list"
  | JObj "(string \<times> jval) list"

type_synonym settings = "string \<rightharpoonup> jval"

definition DEFAULT_SETTINGS :: settings where
  "DEFAULT_SETTINGS = map_of
     [(''delimiter'', JStr ''newline''),
      (''loop_mode'', JBool False),
      (''show_indicator'', JBool True),
      (''min_lines'', JInt 2),
      (''indicator_opacity'', JFloat 9 (- 1)),
      (''indicator_position'', JStr ''top-right''),
      (''hotkey'', JStr ''F9''),
      (''paste_delay'', JInt 350)]"




definition settings_get :: "settings \<Rightarrow> string \<Rightarrow> jval \<Rightarrow> jval" where
  "settings_get s k d = (case s k of None \<Rightarrow> d | Some v \<Rightarrow> v)"

definition settings_set :: "string \<Rightarrow> jval \<Rightarrow> settings \<Rightarrow> settings" where
  "settings_set k v s = s(k \<mapsto> v)"

definition settings_delimiter :: "settings \<Rightarrow> jval" where
  "settings_delimiter s = settings_get s ''delimiter'' (JStr ''newline'')"

text \<open>
  The delimiter lines of \<open>SettingsDialog._save_settings\<close>: the combo box index selects the
  name, with Python's indexing of the five-element list, and the text of the custom field
  is stored when the name is \<open>custom\<close>. Writing the file is left out: \<open>save\<close> swallows
  every failure and changes nothing in memory.
\<close>

definition delimiter_names :: "string list" where
  "delimiter_names = [''newline'', ''comma'', ''tab'', ''semicolon'', ''custom'']"

definition list_index :: "'a list \<Rightarrow> int \<Rightarrow> error + 'a" where
  "list_index xs i =
     (if 0 \<le> i \<and> i < int (length xs) then Inr (xs ! nat i)
      else if i < 0 \<and> - int (length xs) \<le> i then Inr (xs ! nat (int (length xs) + i))
      else Inl IndexError)"

definition save_settings_delimiter :: "int \<Rightarrow> string \<Rightarrow> settings \<Rightarrow> error + settings" where
  "save_settings_delimiter combo_index custom_text s =
     (case list_index delimiter_names combo_index of
        Inl e \<Rightarrow> Inl e
      | Inr name \<Rightarrow>
          (let s1 = settings_set ''delimiter'' (JStr name) s
           in if settings_delimiter s1 = JStr ''custom''
              then Inr (settings_set ''custom_delimiter'' (JStr custom_text) s1)
              else Inr s1))"

text \<open>
  \<open>_set_delimiter_from_settings\<close>. The setting is looked up in a dict with four string
  keys: a list or an object is unhashable and raises TypeError, any other value that is
  not one of the keys gives the default.
\<close>

definition delimiter_map :: "string \<rightharpoonup> string" where
  "delimiter_map = map_of
     [(''newline'', DELIMITER_NEWLINE),
      (''comma'', DELIMITER_COMMA),
      (''tab'', DELIMITER_TAB),
      (''semicolon'', DELIMITER_SEMICOLON)]"

definition set_delimiter_from_settings ::
  "settings \<Rightarrow> queue_manager \<Rightarrow> error + queue_manager" where
  "set_delimiter_from_settings s qm =
     (case settings_delimiter s of
        JStr name \<Rightarrow>
          Inr (set_delimiter
                 (case delimiter_map name of None \<Rightarrow> DELIMITER_NEWLINE | Some d \<Rightarrow> d) qm)
      | JArr _ \<Rightarrow> Inl TypeError
      | JObj _ \<Rightarrow> Inl TypeError
      | _ \<Rightarrow> Inr (set_delimiter DELIMITER_NEWLINE qm))"

section \<open>Hotkey matching (hotkey\_handler.py)\<close>

text \<open>
  The two kinds of key pynput hands to the listener: a member of the enum \<open>Key\<close>, known
  by its \<open>name\<close>, and a \<open>KeyCode\<close> with its fields \<open>vk\<close>, \<open>char\<close> and \<open>is_dead\<close>.
  \<open>key_eq\<close> is \<open>==\<close> on them: identity on enum members, and on key codes the characters
  and dead flags when both have a character, the virtual key codes otherwise.
\<close>

datatype key =
    Key string
  | KeyCode "int option" "string option" bool

fun key_eq :: "key \<Rightarrow> key \<Rightarrow> bool" where
  "key_eq (Key n1) (Key n2) = (n1 = n2)"
| "key_eq (KeyCode vk1 c1 d1) (KeyCode vk2 c2 d2) =
     (if c1 \<noteq> None \<and> c2 \<noteq> None then c1 = c2 \<and> d1 = d2 else vk1 = vk2)"
| "key_eq _ _ = False"

text \<open>\<open>str.lower\<close> on the code points below 256: A..Z and the accented capitals.\<close>

definition lower_char :: "char \<Rightarrow> char" where
  "lower_char c =
     (let n = (of_char c :: nat)
      in if (65 \<le> n \<and> n \<le> 90) \<or> (192 \<le> n \<and> n \<le> 222 \<and> n \<noteq> 215)
         then char_of (n + 32) else c)"

definition lower :: "string \<Rightarrow> string" where
  "lower s = map lower_char s"

text \<open>\<open>'cmd' in name\<close> is the substring test, \<open>sublist\<close> on lists of characters.\<close>

fun keys_match :: "key \<Rightarrow> key \<Rightarrow> bool" where
  "keys_match key1 key2 =
     (if key_eq key1 key2 then True
      else (case (key1, key2) of
              (Key name1, Key name2) \<Rightarrow>
                (if sublist ''cmd'' name1 \<and> sublist ''cmd'' name2 then True
                 else if sublist ''ctrl'' name1 \<and> sublist ''ctrl'' name2 then True
                 else if sublist ''alt'' name1 \<and> sublist ''alt'' name2 then True
                 else if sublist ''shift'' name1 \<and> sublist ''shift'' name2 then True
                 else False)
            | (KeyCode vk1 char1 d1, KeyCode vk2 char2 d2) \<Rightarrow>
                (case (char1, char2) of
                   (Some a, Some b) \<Rightarrow>
                     (if a \<noteq> [] \<and> b \<noteq> [] then lower a = lower b else False)
                 | _ \<Rightarrow> False)
            | _ \<Rightarrow> False))"

text \<open>
  The two loops of \<open>_check_hotkey\<close>, over the hotkey combination and over the keys that
  are down, each set in the order the iteration yields it.
\<close>

fun any_match :: "key \<Rightarrow> key list \<Rightarrow> bool" where
  "any_match hk [] = False"
| "any_match hk (ck # cks) = (if keys_match hk ck then True else any_match hk cks)"

fun check_hotkey :: "key list \<Rightarrow> key list \<Rightarrow> bool" where
  "check_hotkey [] current_keys = True"
| "check_hotkey (hk # hks) current_keys =
     (if any_match hk current_keys then check_hotkey hks current_keys else False)"

text \<open>
  The matching rule in the specification's words: equal keys, two of the left, right and
  plain variants of one modifier, or two character keys with the same character up to
  case.
\<close>

definition modifier_variants :: "string \<Rightarrow> string list" where
  "modifier_variants m = [m, m @ ''_l'', m @ ''_r'']"

definition spec_same_modifier :: "key \<Rightarrow> key \<Rightarrow> bool" where
  "spec_same_modifier k1 k2 =
     list_ex (\<lambda>m. list_ex (\<lambda>n1. k1 = Key n1) (modifier_variants m)
                 \<and> list_ex (\<lambda>n2. k2 = Key n2) (modifier_variants m))
       [''ctrl'', ''alt'', ''shift'', ''cmd'']"

fun same_char_ignoring_case :: "key \<Rightarrow> key \<Rightarrow> bool" where
  "same_char_ignoring_case (KeyCode vk1 (Some a) d1) (KeyCode vk2 (Some b) d2) =
     (a \<noteq> [] \<and> b \<noteq> [] \<and> lower a = lower b)"
| "same_char_ignoring_case _ _ = False"

definition spec_keys_match :: "key \<Rightarrow> key \<Rightarrow> bool" where
  "spec_keys_match k1 k2 =
     (key_eq k1 k2 \<or> spec_same_modifier k1 k2 \<or> same_char_ignoring_case k1 k2)"

definition spec_check_hotkey :: "key list \<Rightarrow> key list \<Rightarrow> bool" where
  "spec_check_hotkey hotkey current_keys =
     list_all (\<lambda>hk. list_ex (spec_keys_match hk) current_keys) hotkey"

text \<open>The rule the code applies to two enum members: one modifier word occurs in both names.\<close>

fun same_modifier_word :: "key \<Rightarrow> key \<Rightarrow> bool" where
  "same_modifier_word (Key n1) (Key n2) =
     list_ex (\<lambda>m. sublist m n1 \<and> sublist m n2) [''cmd'', ''ctrl'', ''alt'', ''shift'']"
| "same_modifier_word _ _ = False"

section \<open>Queue manager: popping\<close>

text \<open>
  C9. When the live queue and the snapshot are both empty, \<open>pop_next\<close> returns None,
  with loop mode on as well as off, and the object is left as it was.
\<close>

theorem pop_next_both_empty:
  "queue qm = [] \<Longrightarrow> original_queue qm = [] \<Longrightarrow> pop_next qm = (None, qm)"
  by (simp add: pop_next_def)

theorem pop_next_both_empty_witness:
  "queue (init\<lparr>loop_mode := True\<rparr>) = [] \<and> original_queue (init\<lparr>loop_mode := True\<rparr>) = []
   \<and> pop_next (init\<lparr>loop_mode := True\<rparr>) = (None, init\<lparr>loop_mode := True\<rparr>)"
  using pop_next_both_empty [of "init\<lparr>loop_mode := True\<rparr>"]
  by (simp add: init_def)

text \<open>
  C5. The display position is \<open>total - remaining + 1\<close> when the snapshot is not empty,
  and 0 when it is.
\<close>

theorem get_current_position_value:
  "(0 < length (original_queue qm) \<longrightarrow>
      get_current_position qm
        = int (length (original_queue qm)) - int (length (queue qm)) + 1)
   \<and> (length (original_queue qm) = 0 \<longrightarrow> get_current_position qm = 0)"
  by (simp add: get_current_position_def get_total_def get_count_def)

theorem get_current_position_value_witness:
  "0 < length (original_queue (init\<lparr>queue := [''b''], original_queue := [''a'', ''b'']\<rparr>))
   \<and> get_current_position (init\<lparr>queue := [''b''], original_queue := [''a'', ''b'']\<rparr>) = 2
   \<and> length (original_queue init) = 0
   \<and> get_current_position init = 0"
  using get_current_position_value [of "init\<lparr>queue := [''b''], original_queue := [''a'', ''b'']\<rparr>"]
        get_current_position_value [of init]
  by (simp add: init_def)

text \<open>
  C1 (amended). With the live queue empty: without loop mode \<open>pop_next\<close> returns None and
  changes nothing; with loop mode and a snapshot that is not empty it reloads the
  snapshot, returns its first element and leaves the rest, so that the remaining count is
  the snapshot length minus one. (With loop mode and an empty snapshot it returns None,
  see C9.)
\<close>

theorem pop_next_empty_queue:
  "queue qm = [] \<Longrightarrow>
     (\<not> loop_mode qm \<longrightarrow> pop_next qm = (None, qm))
     \<and> (loop_mode qm \<and> original_queue qm \<noteq> [] \<longrightarrow>
          fst (pop_next qm) = Some (hd (original_queue qm))
          \<and> queue (snd (pop_next qm)) = tl (original_queue qm)
          \<and> original_queue (snd (pop_next qm)) = original_queue qm
          \<and> get_count (snd (pop_next qm)) = get_total qm - 1)"
  by (cases "original_queue qm")
     (simp_all add: pop_next_def pop_front_def get_count_def get_total_def)

theorem pop_next_empty_queue_witness:
  "queue (init\<lparr>loop_mode := True, original_queue := [''a'', ''b'']\<rparr>) = []
   \<and> loop_mode (init\<lparr>loop_mode := True, original_queue := [''a'', ''b'']\<rparr>)
   \<and> original_queue (init\<lparr>loop_mode := True, original_queue := [''a'', ''b'']\<rparr>) \<noteq> []
   \<and> pop_next (init\<lparr>loop_mode := True, original_queue := [''a'', ''b'']\<rparr>)
       = (Some ''a'', init\<lparr>loop_mode := True, original_queue := [''a'', ''b''], queue := [''b'']\<rparr>)
   \<and> queue (init\<lparr>original_queue := [''a'', ''b'']\<rparr>) = []
   \<and> \<not> loop_mode (init\<lparr>original_queue := [''a'', ''b'']\<rparr>)
   \<and> pop_next (init\<lparr>original_queue := [''a'', ''b'']\<rparr>)
       = (None, init\<lparr>original_queue := [''a'', ''b'']\<rparr>)"
  using pop_next_empty_queue [of "init\<lparr>loop_mode := True, original_queue := [''a'', ''b'']\<rparr>"]
        pop_next_empty_queue [of "init\<lparr>original_queue := [''a'', ''b'']\<rparr>"]
  by (simp add: init_def pop_next_def pop_front_def)

text \<open>
  C1 as stated fails for a manager in loop mode that was never loaded: the live queue is
  empty, nothing is returned, and the remaining count 0 is not the snapshot length minus
  one.
\<close>

theorem pop_next_empty_queue_counterexample:
  "queue (init\<lparr>loop_mode := True\<rparr>) = [] \<and> loop_mode (init\<lparr>loop_mode := True\<rparr>)
   \<and> fst (pop_next (init\<lparr>loop_mode := True\<rparr>)) = None
   \<and> get_count (snd (pop_next (init\<lparr>loop_mode := True\<rparr>)))
        \<noteq> get_total (init\<lparr>loop_mode := True\<rparr>) - 1"
  by (simp add: pop_next_def init_def get_count_def get_total_def)

section \<open>Queue manager: the live queue never outgrows the snapshot\<close>

lemma queue_inv_init: "queue_inv init"
  by (simp add: queue_inv_def init_def)

lemma queue_inv_pop_front: "queue_inv qm \<Longrightarrow> queue_inv (snd (pop_front qm))"
  by (auto simp: queue_inv_def pop_front_def split: list.splits)

lemma queue_inv_pop_next: "queue_inv qm \<Longrightarrow> queue_inv (snd (pop_next qm))"
proof -
  assume inv: "queue_inv qm"
  have "queue_inv (qm\<lparr>queue := original_queue qm\<rparr>)"
    by (simp add: queue_inv_def)
  with inv show ?thesis
    by (simp add: pop_next_def queue_inv_pop_front)
qed

lemma queue_inv_load_text: "queue_inv qm \<Longrightarrow> queue_inv (snd (load_text text delim qm))"
  by (auto simp: queue_inv_def load_text_def Let_def split: sum.splits option.splits)

lemma queue_inv_step: "queue_inv qm \<Longrightarrow> queue_inv (step qm x)"
  by (cases x)
     (simp_all add: queue_inv_pop_next queue_inv_load_text,
      simp_all add: queue_inv_def clear_def set_delimiter_def set_loop_mode_def)

lemma queue_inv_foldl: "queue_inv qm \<Longrightarrow> queue_inv (foldl step qm ops)"
  by (induction ops arbitrary: qm) (simp_all add: queue_inv_step)

text \<open>
  C4. After any sequence of \<open>load_text\<close>, \<open>peek_next\<close>, \<open>pop_next\<close>, \<open>clear\<close> and the two
  setters, run from the initial state, the live queue is no longer than the snapshot. The
  sequence is arbitrary, so this holds after each of its operations; a \<open>load_text\<close> that
  raises leaves both lists as they were.
\<close>

theorem queue_never_longer_than_snapshot:
  "length (queue (run_ops ops)) \<le> length (original_queue (run_ops ops))"
  using queue_inv_foldl [OF queue_inv_init, of ops]
  by (simp add: run_ops_def queue_inv_def)

section \<open>Queue manager: loading text\<close>

lemma strip_snoc_space:
  assumes "py_isspace c"
  shows "strip (s @ [c]) = strip s"
proof (cases "\<forall>x\<in>set s. py_isspace x")
  case True
  then have blank: "dropWhile py_isspace s = []"
    by simp
  from True assms have blank': "dropWhile py_isspace (s @ [c]) = []"
    by simp
  show ?thesis
    by (simp only: strip_def blank blank')
next
  case False
  then have "dropWhile py_isspace (s @ [c]) = dropWhile py_isspace s @ [c]"
    by (simp add: dropWhile_append)
  then show ?thesis
    by (simp add: strip_def assms)
qed

lemma CR_space: "py_isspace CR"
  by (simp add: py_isspace_def CR_def)

lemma CR_neq_LF: "CR \<noteq> LF"
  by (simp add: CR_def LF_def)

lemma split_from_LF_Cons:
  "split_from [LF] acc (c # cs) =
     (if c = LF then rev acc # split_from [LF] [] cs else split_from [LF] (c # acc) cs)"
  by simp

lemma replace_crlf_Nil: "replace_from [CR, LF] [LF] [] = []"
  by simp

lemma replace_crlf_hit:
  "replace_from [CR, LF] [LF] (CR # LF # cs) = LF # replace_from [CR, LF] [LF] cs"
  by simp

lemma replace_crlf_miss:
  "\<not> (c = CR \<and> (\<exists>cs'. cs = LF # cs')) \<Longrightarrow>
     replace_from [CR, LF] [LF] (c # cs) = c # replace_from [CR, LF] [LF] cs"
  by (cases cs) auto

lemma crlf_lines_same:
  "map strip (filter (\<lambda>line. strip line \<noteq> [])
       (split_from [LF] acc (replace_from [CR, LF] [LF] s)))
   = map strip (filter (\<lambda>line. strip line \<noteq> []) (split_from [LF] acc s))"
proof (induction "length s" arbitrary: s acc rule: less_induct)
  case less
  show ?case
  proof (cases s)
    case Nil
    then show ?thesis by simp
  next
    case (Cons c cs)
    show ?thesis
    proof (cases "c = CR \<and> (\<exists>cs'. cs = LF # cs')")
      case True
      then obtain cs' where cs: "cs = LF # cs'" and c: "c = CR"
        by blast
      have IH: "map strip (filter (\<lambda>line. strip line \<noteq> [])
                   (split_from [LF] [] (replace_from [CR, LF] [LF] cs')))
                = map strip (filter (\<lambda>line. strip line \<noteq> []) (split_from [LF] [] cs'))"
        using less [of cs' "[]"] Cons cs by simp
      have lhs: "split_from [LF] acc (replace_from [CR, LF] [LF] s)
                 = rev acc # split_from [LF] [] (replace_from [CR, LF] [LF] cs')"
        unfolding Cons cs c replace_crlf_hit split_from_LF_Cons by simp
      have rhs: "split_from [LF] acc s = (rev acc @ [CR]) # split_from [LF] [] cs'"
        unfolding Cons cs c split_from_LF_Cons using CR_neq_LF by simp
      show ?thesis
        unfolding lhs rhs using IH by (simp add: strip_snoc_space [OF CR_space])
    next
      case False
      have rep: "replace_from [CR, LF] [LF] s = c # replace_from [CR, LF] [LF] cs"
        unfolding Cons using False by (rule replace_crlf_miss)
      have IH: "\<And>acc'. map strip (filter (\<lambda>line. strip line \<noteq> [])
                   (split_from [LF] acc' (replace_from [CR, LF] [LF] cs)))
                = map strip (filter (\<lambda>line. strip line \<noteq> []) (split_from [LF] acc' cs))"
        using less [of cs] Cons by simp
      show ?thesis
        unfolding rep unfolding Cons split_from_LF_Cons using IH by simp
    qed
  qed
qed

lemma strip_filter_swap:
  "map strip (filter (\<lambda>line. strip line \<noteq> []) ls) = filter (\<lambda>seg. seg \<noteq> []) (map strip ls)"
  by (induction ls) simp_all

lemma load_text_lines:
  assumes "D \<noteq> []"
  shows "(if D = DELIMITER_NEWLINE
          then str_split (str_replace text [CR, LF] [LF]) [LF]
          else str_split text D)
         = Inr (if D = [LF] then split_from [LF] [] (replace_from [CR, LF] [LF] text)
                else split_from D [] text)"
  using assms by (simp add: str_split_def str_replace_def DELIMITER_NEWLINE_def)

lemma spec_segments_example: "spec_segments ''a, ,b'' '','' = [''a'', ''b'']"
  by (simp add: spec_segments_def strip_def py_isspace_def)

text \<open>
  C3 (amended). For every text and every delimiter \<open>D\<close> that is not empty, passed to
  \<open>load_text\<close> or already set on the manager, the queue and the snapshot become the
  stripped, non-empty segments of the text split on \<open>D\<close>, in order, and the call returns
  their number. For the newline delimiter the code removes the carriage return of every
  \<open>\r\n\<close> first; stripping the segments gives the same queue.
\<close>

theorem load_text_segments:
  assumes "D \<noteq> []"
    and "delim = Some D \<or> (delim = None \<and> delimiter qm = D)"
  shows "load_text text delim qm =
           (Inr (int (length (spec_segments text D))),
            qm\<lparr>delimiter := D, queue := spec_segments text D,
               original_queue := spec_segments text D, current_index := 0\<rparr>)"
proof -
  define qm1 where "qm1 = (case delim of None \<Rightarrow> qm | Some d \<Rightarrow> qm\<lparr>delimiter := d\<rparr>)"
  have qm1: "qm1 = qm\<lparr>delimiter := D\<rparr>"
    using assms(2) by (auto simp: qm1_def)
  have segs_newline:
    "map strip (filter (\<lambda>line. strip line \<noteq> [])
        (split_from [LF] [] (replace_from [CR, LF] [LF] text))) = spec_segments text [LF]"
    unfolding spec_segments_def strip_filter_swap [symmetric] by (rule crlf_lines_same)
  have segs_other:
    "map strip (filter (\<lambda>line. strip line \<noteq> []) (split_from D [] text)) = spec_segments text D"
    by (simp only: spec_segments_def strip_filter_swap)
  show ?thesis
  proof (cases "D = [LF]")
    case True
    show ?thesis
      unfolding load_text_def qm1_def [symmetric] unfolding qm1 True
      by (simp add: DELIMITER_NEWLINE_def str_split_def str_replace_def Let_def segs_newline
               del: length_map)
  next
    case False
    with assms(1) show ?thesis
      unfolding load_text_def qm1_def [symmetric] unfolding qm1
      by (simp add: DELIMITER_NEWLINE_def str_split_def Let_def segs_other del: length_map)
  qed
qed

theorem load_text_segments_witness:
  "'','' \<noteq> [] \<and>
   load_text ''a, ,b'' (Some '','') init =
     (Inr 2, init\<lparr>delimiter := '','', queue := [''a'', ''b''],
                 original_queue := [''a'', ''b''], current_index := 0\<rparr>)"
  using load_text_segments [of "'',''" "Some '',''" init "''a, ,b''"]
  by (simp add: spec_segments_example)


text \<open>
  C3 as stated fails for the empty delimiter: \<open>split\<close> raises ValueError and no queue is
  produced.
\<close>

theorem load_text_segments_counterexample:
  "fst (load_text ''a,b'' (Some []) init) = Inl ValueError
   \<and> queue (snd (load_text ''a,b'' (Some []) init)) = []"
  by (simp add: load_text_def str_split_def DELIMITER_NEWLINE_def init_def)


text \<open>
  C10. With the newline delimiter, given as an argument or already set on the manager,
  \<open>load_text\<close> gives the same result (return value and state) for a text and for that
  text with every \<open>\r\n\<close> replaced by \<open>\n\<close>.
\<close>

theorem load_text_crlf:
  assumes "delim = Some DELIMITER_NEWLINE \<or> (delim = None \<and> delimiter qm = DELIMITER_NEWLINE)"
  shows "load_text (str_replace text [CR, LF] [LF]) delim qm = load_text text delim qm"
proof -
  define qm1 where "qm1 = (case delim of None \<Rightarrow> qm | Some d \<Rightarrow> qm\<lparr>delimiter := d\<rparr>)"
  have d: "delimiter qm1 = DELIMITER_NEWLINE"
    using assms by (auto simp: qm1_def)
  have same: "map strip (filter (\<lambda>line. strip line \<noteq> [])
          (split_from [LF] [] (replace_from [CR, LF] [LF] (replace_from [CR, LF] [LF] text))))
        = map strip (filter (\<lambda>line. strip line \<noteq> [])
          (split_from [LF] [] (replace_from [CR, LF] [LF] text)))"
    by (rule crlf_lines_same)
  show ?thesis
    unfolding load_text_def qm1_def [symmetric]
    by (simp add: d str_split_def str_replace_def Let_def same del: length_map)
qed


theorem load_text_crlf_witness:
  "delimiter init = DELIMITER_NEWLINE \<and>
   load_text (str_replace [CHR ''a'', CR, CR, LF, CHR ''b''] [CR, LF] [LF]) None init
     = load_text [CHR ''a'', CR, CR, LF, CHR ''b''] None init"
  using load_text_crlf [of None init "[CHR ''a'', CR, CR, LF, CHR ''b'']"]
  by (simp add: init_def)


section \<open>The restore guard\<close>

text \<open>
  C2 (amended). Provided that reading and writing the clipboard do not fail when the
  callback runs, the delayed callback sets the clipboard back to the value saved before
  the paste exactly when the clipboard still holds the pasted line, and then tracks that
  value; otherwise the clipboard is left as it is and the monitor tracks the value found
  there. In both cases the monitor is resumed.
\<close>

theorem restore_clipboard_guard:
  assumes "\<not> paste_raises (clip st)" and "\<not> copy_raises (clip st)"
  shows "restore_clipboard original_clipboard current_line st =
           (if content (clip st) = current_line
            then st\<lparr>clip := (clip st)\<lparr>content := original_clipboard\<rparr>,
                    monitor := (monitor st)\<lparr>last_content := original_clipboard, paused := False\<rparr>\<rparr>
            else st\<lparr>monitor := (monitor st)\<lparr>last_content := content (clip st), paused := False\<rparr>\<rparr>)"
  using assms
  by (simp add: restore_clipboard_def get_clipboard_def set_clipboard_def
                update_last_content_def resume_def Let_def)

theorem restore_clipboard_guard_witness:
  "restore_clipboard ''old'' ''line''
     \<lparr>clip = \<lparr>content = ''line'', paste_raises = False, copy_raises = False\<rparr>,
      monitor = \<lparr>min_lines = 2, paused = True, last_content = ''x''\<rparr>\<rparr>
   = \<lparr>clip = \<lparr>content = ''old'', paste_raises = False, copy_raises = False\<rparr>,
      monitor = \<lparr>min_lines = 2, paused = False, last_content = ''old''\<rparr>\<rparr>
   \<and> restore_clipboard ''old'' ''line''
     \<lparr>clip = \<lparr>content = ''new'', paste_raises = False, copy_raises = False\<rparr>,
      monitor = \<lparr>min_lines = 2, paused = True, last_content = ''x''\<rparr>\<rparr>
   = \<lparr>clip = \<lparr>content = ''new'', paste_raises = False, copy_raises = False\<rparr>,
      monitor = \<lparr>min_lines = 2, paused = False, last_content = ''new''\<rparr>\<rparr>"
  using restore_clipboard_guard [of
          "\<lparr>clip = \<lparr>content = ''line'', paste_raises = False, copy_raises = False\<rparr>,
            monitor = \<lparr>min_lines = 2, paused = True, last_content = ''x''\<rparr>\<rparr>" "''old''" "''line''"]
        restore_clipboard_guard [of
          "\<lparr>clip = \<lparr>content = ''new'', paste_raises = False, copy_raises = False\<rparr>,
            monitor = \<lparr>min_lines = 2, paused = True, last_content = ''x''\<rparr>\<rparr>" "''old''" "''line''"]
  by simp

text \<open>
  C2 as stated fails when clipboard access fails. If the write raises, the clipboard still
  holds the pasted line and is not set back, while the monitor tracks the saved value. If
  the read raises, the clipboard holds the pasted line and is not set back either, and the
  monitor tracks the empty string.
\<close>

theorem restore_clipboard_guard_counterexample:
  "content (clip (restore_clipboard ''old'' ''line''
      \<lparr>clip = \<lparr>content = ''line'', paste_raises = False, copy_raises = True\<rparr>,
       monitor = \<lparr>min_lines = 2, paused = True, last_content = ''x''\<rparr>\<rparr>)) = ''line''
   \<and> last_content (monitor (restore_clipboard ''old'' ''line''
      \<lparr>clip = \<lparr>content = ''line'', paste_raises = False, copy_raises = True\<rparr>,
       monitor = \<lparr>min_lines = 2, paused = True, last_content = ''x''\<rparr>\<rparr>)) = ''old''
   \<and> content (clip (restore_clipboard ''old'' ''line''
      \<lparr>clip = \<lparr>content = ''line'', paste_raises = True, copy_raises = False\<rparr>,
       monitor = \<lparr>min_lines = 2, paused = True, last_content = ''x''\<rparr>\<rparr>)) = ''line''
   \<and> last_content (monitor (restore_clipboard ''old'' ''line''
      \<lparr>clip = \<lparr>content = ''line'', paste_raises = True, copy_raises = False\<rparr>,
       monitor = \<lparr>min_lines = 2, paused = True, last_content = ''x''\<rparr>\<rparr>)) = []"
  by (simp add: restore_clipboard_def get_clipboard_def set_clipboard_def
        update_last_content_def resume_def Let_def)

text \<open>
  When the read fails, \<open>get_clipboard\<close> yields the empty string: a line that is not
  empty is then never restored, and the monitor tracks the empty string.
\<close>

lemma restore_clipboard_read_failure:
  "paste_raises (clip st) \<Longrightarrow> current_line \<noteq> [] \<Longrightarrow>
     restore_clipboard original_clipboard current_line st
       = st\<lparr>monitor := (monitor st)\<lparr>last_content := [], paused := False\<rparr>\<rparr>"
  by (auto simp: restore_clipboard_def get_clipboard_def update_last_content_def resume_def
        Let_def)

section \<open>Settings\<close>

text \<open>The four named delimiters reach the queue manager as their separators.\<close>

lemma delimiter_from_settings_named:
  "set_delimiter_from_settings (s(''delimiter'' \<mapsto> JStr ''newline'')) qm
     = Inr (qm\<lparr>delimiter := DELIMITER_NEWLINE\<rparr>)"
  "set_delimiter_from_settings (s(''delimiter'' \<mapsto> JStr ''comma'')) qm
     = Inr (qm\<lparr>delimiter := DELIMITER_COMMA\<rparr>)"
  "set_delimiter_from_settings (s(''delimiter'' \<mapsto> JStr ''tab'')) qm
     = Inr (qm\<lparr>delimiter := DELIMITER_TAB\<rparr>)"
  "set_delimiter_from_settings (s(''delimiter'' \<mapsto> JStr ''semicolon'')) qm
     = Inr (qm\<lparr>delimiter := DELIMITER_SEMICOLON\<rparr>)"
  by (simp_all add: set_delimiter_from_settings_def settings_delimiter_def settings_get_def
        delimiter_map_def set_delimiter_def DELIMITER_NEWLINE_def DELIMITER_COMMA_def
        DELIMITER_TAB_def DELIMITER_SEMICOLON_def)

lemma load_text_bar_example:
  "load_text ''a|b'' None (init\<lparr>delimiter := DELIMITER_NEWLINE\<rparr>)
     = (Inr 1, init\<lparr>queue := [''a|b''], original_queue := [''a|b'']\<rparr>)"
  by (simp add: load_text_def str_split_def str_replace_def strip_def py_isspace_def
        DELIMITER_NEWLINE_def init_def LF_def CR_def Let_def)

text \<open>
  C6. Saving the dialog with the fifth entry (\<open>Custom\<close>) and the custom text \<open>|\<close> stores
  both \<open>delimiter = custom\<close> and \<open>custom_delimiter = |\<close>; applying these settings to a
  manager that splits on commas sets its delimiter to the newline, not to the stored
  custom string, and the text \<open>a|b\<close> is then loaded as one line.
\<close>

theorem custom_delimiter_not_applied:
  "save_settings_delimiter 4 ''|'' DEFAULT_SETTINGS
     = Inr (DEFAULT_SETTINGS(''delimiter'' \<mapsto> JStr ''custom'',
                               ''custom_delimiter'' \<mapsto> JStr ''|''))
   \<and> set_delimiter_from_settings
         (DEFAULT_SETTINGS(''delimiter'' \<mapsto> JStr ''custom'',
                            ''custom_delimiter'' \<mapsto> JStr ''|''))
         (init\<lparr>delimiter := DELIMITER_COMMA\<rparr>)
     = Inr (init\<lparr>delimiter := DELIMITER_NEWLINE\<rparr>)
   \<and> DELIMITER_NEWLINE \<noteq> ''|''
   \<and> queue (snd (load_text ''a|b'' None (init\<lparr>delimiter := DELIMITER_NEWLINE\<rparr>))) = [''a|b'']"
  by (simp add: save_settings_delimiter_def list_index_def delimiter_names_def
        settings_set_def settings_delimiter_def settings_get_def
        set_delimiter_from_settings_def delimiter_map_def set_delimiter_def
        load_text_bar_example)
     (simp add: DELIMITER_NEWLINE_def LF_def)



section \<open>Hotkey matching\<close>

lemma keys_match_iff:
  "keys_match k1 k2 \<longleftrightarrow>
     key_eq k1 k2 \<or> same_modifier_word k1 k2 \<or> same_char_ignoring_case k1 k2"
proof (cases k1)
  case (Key n1)
  then show ?thesis by (cases k2) auto
next
  case (KeyCode vk1 c1 d1)
  show ?thesis
  proof (cases k2)
    case (Key n2)
    with KeyCode show ?thesis by simp
  next
    case k2: (KeyCode vk2 c2 d2)
    show ?thesis
      unfolding KeyCode k2 by (cases c1; cases c2) auto
  qed
qed

lemma any_match_iff: "any_match hk cks \<longleftrightarrow> (\<exists>ck\<in>set cks. keys_match hk ck)"
  by (induction cks) (simp_all del: keys_match.simps)

lemma check_hotkey_all:
  "check_hotkey hks cks \<longleftrightarrow> (\<forall>hk\<in>set hks. any_match hk cks)"
  by (induction hks) simp_all

text \<open>
  C8 (amended). The hotkey matches exactly when every key of the combination matches some
  key that is down, where two keys match when they are equal, when both are members of
  \<open>Key\<close> whose names contain the same modifier word (cmd, ctrl, alt or shift), or when
  both are key codes with characters that are not empty and agree after lowering.
\<close>

theorem check_hotkey_iff:
  "check_hotkey hotkey current_keys \<longleftrightarrow>
     (\<forall>hk\<in>set hotkey. \<exists>ck\<in>set current_keys.
        key_eq hk ck \<or> same_modifier_word hk ck \<or> same_char_ignoring_case hk ck)"
  by (simp only: check_hotkey_all any_match_iff keys_match_iff)

theorem check_hotkey_iff_witness:
  "check_hotkey [Key ''ctrl'', Key ''f9'', KeyCode None (Some ''v'') False]
                [KeyCode (Some 86) (Some ''V'') False, Key ''f9'', Key ''ctrl_l'']"
proof -
  have "\<forall>hk\<in>set [Key ''ctrl'', Key ''f9'', KeyCode None (Some ''v'') False].
         \<exists>ck\<in>set [KeyCode (Some 86) (Some ''V'') False, Key ''f9'', Key ''ctrl_l''].
           key_eq hk ck \<or> same_modifier_word hk ck \<or> same_char_ignoring_case hk ck"
    by code_simp
  with check_hotkey_iff [of "[Key ''ctrl'', Key ''f9'', KeyCode None (Some ''v'') False]"
                            "[KeyCode (Some 86) (Some ''V'') False, Key ''f9'', Key ''ctrl_l'']"]
  show ?thesis by blast
qed

text \<open>
  C8 as stated fails for the enum member \<open>alt_gr\<close>: it is none of \<open>alt\<close>, \<open>alt_l\<close> and
  \<open>alt_r\<close>, yet its name contains \<open>alt\<close>, so a hotkey on \<open>alt_gr\<close> fires when only
  \<open>alt\<close> is down.
\<close>

theorem check_hotkey_counterexample:
  "check_hotkey [Key ''alt_gr''] [Key ''alt'']
   \<and> \<not> spec_check_hotkey [Key ''alt_gr''] [Key ''alt'']"
  by (simp add: spec_check_hotkey_def spec_keys_match_def spec_same_modifier_def
        modifier_variants_def)

text \<open>
  The other direction holds: whatever matches by the specification's rule matches in the
  code.
\<close>

lemma spec_same_modifier_imp: "spec_same_modifier k1 k2 \<Longrightarrow> same_modifier_word k1 k2"
  by (auto simp: spec_same_modifier_def modifier_variants_def)

lemma spec_keys_match_imp: "spec_keys_match k1 k2 \<Longrightarrow> keys_match k1 k2"
  unfolding keys_match_iff spec_keys_match_def
  using spec_same_modifier_imp by blast

lemma spec_check_hotkey_imp:
  "spec_check_hotkey hotkey current_keys \<Longrightarrow> check_hotkey hotkey current_keys"
  unfolding check_hotkey_all any_match_iff spec_check_hotkey_def list_all_iff list_ex_iff
  using spec_keys_match_imp by blast

end
